theory Spec2Isabelle
  imports Main
begin

section \<open>Python values, strings and errors\<close>

text \<open>
  The values a query mapping may hold, after the source's
  \<^verbatim>\<open>TQueryData = dict[str, int | bool | str | None]\<close>.
\<close>

datatype pyval = PNone | PInt int | PBool bool | PStr string

text \<open>
  A Python \<^verbatim>\<open>dict\<close> with string keys keeps its insertion order, which decides the order
  of the generated clauses: an association list, first entry first.
\<close>

type_synonym qdata = "(string \<times> pyval) list"

text \<open>
  The exceptions the operations raise, with their messages. \<open>EngineError\<close> stands for
  whatever the storage engine raises (\<^verbatim>\<open>sqlite3.Error\<close>, \<^verbatim>\<open>OverflowError\<close> for a value
  it cannot bind, ...): the operations never catch it, so it reaches the caller as it is.
\<close>

datatype error =
    ValueError string
  | TypeError string
  | AttributeError
  | IndexError
  | RecursionError
  | EngineError string

text \<open>
  \<^verbatim>\<open>str.lower()\<close> on the ASCII range: the letters A to Z (codes 65 to 90) move up by 32,
  every other byte is kept.
\<close>

definition lower_char :: "char \<Rightarrow> char" where
  "lower_char c =
     (let n = (of_char c :: nat) in if 65 \<le> n \<and> n \<le> 90 then char_of (n + 32) else c)"

definition lower :: "string \<Rightarrow> string" where
  "lower s = map lower_char s"

text \<open>\<^verbatim>\<open>sep.join(parts)\<close>.\<close>

fun join :: "string \<Rightarrow> string list \<Rightarrow> string" where
  "join sep [] = []"
| "join sep [x] = x"
| "join sep (x # y # ys) = x @ sep @ join sep (y # ys)"

text \<open>The decimal digits of an integer, a minus sign first for a negative one.\<close>

definition digit :: "nat \<Rightarrow> char" where
  "digit d = char_of (48 + d)"

fun str_nat :: "nat \<Rightarrow> string" where
  "str_nat n = (if n < 10 then [digit n] else str_nat (n div 10) @ [digit (n mod 10)])"

declare str_nat.simps [simp del]

definition str_int :: "int \<Rightarrow> string" where
  "str_int i = (if i < 0 then CHR ''-'' # str_nat (nat (- i)) else str_nat (nat i))"

text \<open>
  CPython (3.11, and 3.7 to 3.10 from their security releases of September 2022 on) refuses
  to convert an \<^verbatim>\<open>int\<close> to a decimal string when it has more digits than
  \<^verbatim>\<open>sys.get_int_max_str_digits()\<close>: 4300 unless configured otherwise, at least 640 when
  set, and 0 when the limit is switched off (as on older interpreters). The limit is the
  parameter \<open>max_str_digits\<close> of the model. An integer has more than \<open>n\<close> digits exactly
  when its absolute value is at least \<open>10 ^ n\<close>.
\<close>

definition exceeds_max_str_digits :: "nat \<Rightarrow> int \<Rightarrow> bool" where
  "exceeds_max_str_digits max_str_digits i \<longleftrightarrow>
     0 < max_str_digits \<and> 10 ^ max_str_digits \<le> \<bar>i\<bar>"

definition max_str_digits_error :: "nat \<Rightarrow> error" where
  "max_str_digits_error max_str_digits =
     ValueError (''Exceeds the limit ('' @ str_nat max_str_digits @
       '' digits) for integer string conversion; use sys.set_int_max_str_digits() to increase the limit'')"

text \<open>
  \<^verbatim>\<open>str(value)\<close>, which is also what an f-string applies to a value it embeds.
\<close>

fun py_str :: "nat \<Rightarrow> pyval \<Rightarrow> error + string" where
  "py_str max_str_digits PNone = Inr ''None''"
| "py_str max_str_digits (PInt i) =
     (if exceeds_max_str_digits max_str_digits i then Inl (max_str_digits_error max_str_digits)
      else Inr (str_int i))"
| "py_str max_str_digits (PBool b) = Inr (if b then ''True'' else ''False'')"
| "py_str max_str_digits (PStr s) = Inr s"

text \<open>
  A generator expression or comprehension whose element expression may raise: the elements
  are produced in order, and the first exception ends the whole expression.
\<close>

fun collect :: "('a \<Rightarrow> error + 'b) \<Rightarrow> 'a list \<Rightarrow> error + 'b list" where
  "collect f [] = Inr []"
| "collect f (x # xs) =
     (case f x of
        Inl e \<Rightarrow> Inl e
      | Inr y \<Rightarrow> (case collect f xs of Inl e \<Rightarrow> Inl e | Inr ys \<Rightarrow> Inr (y # ys)))"

section \<open>The clause builder\<close>

text \<open>
  One entry of the mapping in parameterized mode:
  \<^verbatim>\<open>f"{key} is NULL" if value is None else f"{key} = :{key}"\<close>.
\<close>

fun parameter_clause :: "string \<times> pyval \<Rightarrow> string" where
  "parameter_clause (key, val) =
     (if val = PNone then key @ '' is NULL'' else key @ '' = :'' @ key)"

text \<open>
  One entry in literal mode:
  \<^verbatim>\<open>f"{key} is NULL" if value is None else f"{key} = '{value}'" if isinstance(value, str)
  else f"{key} = {value}"\<close>. The last alternative converts an \<^verbatim>\<open>int\<close> to its decimal
  string, which raises above the digit limit.
\<close>

fun literal_clause :: "nat \<Rightarrow> string \<times> pyval \<Rightarrow> error + string" where
  "literal_clause max_str_digits (key, val) =
     (if val = PNone then Inr (key @ '' is NULL'')
      else (case val of
              PStr s \<Rightarrow> Inr (key @ '' = '' @ [CHR 0x27] @ s @ [CHR 0x27])
            | _ \<Rightarrow> (case py_str max_str_digits val of
                      Inl e \<Rightarrow> Inl e
                    | Inr s \<Rightarrow> Inr (key @ '' = '' @ s))))"

text \<open>
  \<^verbatim>\<open>Operation._make_operator_query\<close> (operations.py, lines 41 to 64) and its copy
  \<^verbatim>\<open>TableOperation._make_operator_query\<close> (lines 77 to 100). The first argument is the
  interpreter's digit limit; the others are the source's.
\<close>

definition Operation_make_operator_query ::
    "nat \<Rightarrow> qdata \<Rightarrow> string \<Rightarrow> bool \<Rightarrow> error + string" where
  "Operation_make_operator_query max_str_digits data operator without_parameters =
     (if lower operator \<notin> {''and'', ''or'', '',''} then Inl (ValueError ''Incorrect operator.'')
      else if \<not> without_parameters
        then Inr (join ('' '' @ operator @ '' '') (map parameter_clause data))
      else (case collect (literal_clause max_str_digits) data of
              Inl e \<Rightarrow> Inl e
            | Inr clauses \<Rightarrow> Inr (join ('' '' @ operator @ '' '') clauses)))"

definition TableOperation_make_operator_query ::
    "nat \<Rightarrow> qdata \<Rightarrow> string \<Rightarrow> bool \<Rightarrow> error + string" where
  "TableOperation_make_operator_query max_str_digits data operator without_parameters =
     (if lower operator \<notin> {''and'', ''or'', '',''} then Inl (ValueError ''Incorrect operator.'')
      else if \<not> without_parameters
        then Inr (join ('' '' @ operator @ '' '') (map parameter_clause data))
      else (case collect (literal_clause max_str_digits) data of
              Inl e \<Rightarrow> Inl e
            | Inr clauses \<Rightarrow> Inr (join ('' '' @ operator @ '' '') clauses)))"

section \<open>Tables, rows and the connection\<close>

text \<open>
  Modelled from the spec: the Table binding (table.py is not among the sources). The
  operations read its name and its ordered column names; \<open>use_datacls\<close> is what
  \<^verbatim>\<open>DB.initialize_tables\<close> passes to the constructor.
\<close>

record table =
  name :: string
  column_names :: "string list"
  use_datacls :: bool


text \<open>
  The storage engine (the sqlite3 cursor and connection) is outside the repository. What
  the operations do to it is the sequence of calls they make, kept in a log; a call without
  bindings is logged with the empty mapping. What the engine answers is a parameter of the
  model, and every answer may depend on the calls made before:

    \<^item> \<open>execute\<close>: the rows of the result (all of them, as \<^verbatim>\<open>fetchall()\<close> returns them), or
      the exception raised;
    \<^item> \<open>executemany\<close> and \<open>commit\<close>: the exception raised, if any;
    \<^item> \<open>fetchmany\<close>: what \<^verbatim>\<open>fetchmany(size)\<close> returns of a result, or the exception it
      raises (sqlite3 takes the size as a C \<^verbatim>\<open>int\<close>).
\<close>

datatype db_call =
    Execute string qdata
  | ExecuteMany string "pyval list list"
  | Commit

record engine =
  execute :: "db_call list \<Rightarrow> string \<Rightarrow> qdata \<Rightarrow> error + pyval list list"
  executemany :: "db_call list \<Rightarrow> string \<Rightarrow> pyval list list \<Rightarrow> error option"
  commit :: "db_call list \<Rightarrow> error option"
  fetchmany :: "int \<Rightarrow> pyval list list \<Rightarrow> error + pyval list list"

text \<open>
  An engine that accepts every statement, answers every query with the same rows, and whose
  \<^verbatim>\<open>fetchmany(size)\<close> gives the first \<open>size\<close> rows: the engine of the concrete runs below.
\<close>

definition steady_engine :: "pyval list list \<Rightarrow> engine" where
  "steady_engine rows =
     \<lparr>execute = (\<lambda>conn query parameters. Inr rows),
      executemany = (\<lambda>conn query items. None),
      commit = (\<lambda>conn. None),
      fetchmany = (\<lambda>sz result. Inr (if 0 < sz then take (nat sz) result else result))\<rparr>"

text \<open>\<^verbatim>\<open>commit()\<close> on the connection.\<close>

definition do_commit :: "engine \<Rightarrow> db_call list \<Rightarrow> (error + unit) \<times> db_call list" where
  "do_commit E conn =
     (case commit E conn of
        Some e \<Rightarrow> (Inl e, conn @ [Commit])
      | None \<Rightarrow> (Inr (), conn @ [Commit]))"

text \<open>\<^verbatim>\<open>d[k] = v\<close>: an existing key keeps its place, a new key goes last.\<close>

fun dict_set :: "('k \<times> 'v) list \<Rightarrow> 'k \<Rightarrow> 'v \<Rightarrow> ('k \<times> 'v) list" where
  "dict_set [] k v = [(k, v)]"
| "dict_set ((k', v') # d) k v = (if k' = k then (k, v) # d else (k', v') # dict_set d k v)"



section \<open>Select\<close>







section \<open>Insert\<close>





section \<open>Delete\<close>

text \<open>
  The \<^verbatim>\<open>id\<close> argument of Delete, \<^verbatim>\<open>int | Iterable[int] | None\<close>: nothing, one number
  (a \<^verbatim>\<open>bool\<close> is an \<^verbatim>\<open>int\<close> too), or an iterable, which is what
  \<^verbatim>\<open>isinstance(id, Iterable)\<close> asks; a \<^verbatim>\<open>str\<close> is the iterable of its characters.
\<close>

datatype delete_id = IdNone | IdInt int | IdBool bool | IdIterable "pyval list"

definition Delete_query :: "table \<Rightarrow> string" where
  "Delete_query t = ''DELETE FROM '' @ name t @ '' WHERE id=?''"

definition Delete_filter ::
    "nat \<Rightarrow> engine \<Rightarrow> table \<Rightarrow> qdata \<Rightarrow> db_call list \<Rightarrow> (error + unit) \<times> db_call list" where
  "Delete_filter max_str_digits E t filter_by conn =
     (if filter_by = [] then (Inl (ValueError ''Value do not be empty.''), conn)
      else (case TableOperation_make_operator_query max_str_digits filter_by ''AND'' False of
              Inl e \<Rightarrow> (Inl e, conn)
            | Inr query_and \<Rightarrow>
                (case execute E conn (''DELETE FROM '' @ name t @ '' WHERE '' @ query_and)
                        filter_by of
                   Inl e \<Rightarrow>
                     (Inl e, conn @ [Execute (''DELETE FROM '' @ name t @ '' WHERE '' @ query_and)
                                       filter_by])
                 | Inr _ \<Rightarrow>
                     do_commit E
                       (conn @ [Execute (''DELETE FROM '' @ name t @ '' WHERE '' @ query_and)
                                  filter_by]))))"

text \<open>
  \<^verbatim>\<open>Delete.__call__\<close>. The tuple of the bindings, \<^verbatim>\<open>tuple((str(id_),) for id_ in id)\<close>,
  is built before the statement is run.
\<close>

definition Delete_call ::
    "nat \<Rightarrow> engine \<Rightarrow> table \<Rightarrow> delete_id \<Rightarrow> qdata \<Rightarrow> db_call list \<Rightarrow>
      (error + unit) \<times> db_call list" where
  "Delete_call max_str_digits E t ident filter_by conn =
     (case ident of
        IdIterable id_list \<Rightarrow>
          (case collect (py_str max_str_digits) id_list of
             Inl e \<Rightarrow> (Inl e, conn)
           | Inr strs \<Rightarrow>
               (case executemany E conn (Delete_query t) (map (\<lambda>s. [PStr s]) strs) of
                  Some e \<Rightarrow>
                    (Inl e, conn @ [ExecuteMany (Delete_query t) (map (\<lambda>s. [PStr s]) strs)])
                | None \<Rightarrow>
                    do_commit E
                      (conn @ [ExecuteMany (Delete_query t) (map (\<lambda>s. [PStr s]) strs)])))
      | IdInt i \<Rightarrow> Delete_filter max_str_digits E t (dict_set filter_by ''id'' (PInt i)) conn
      | IdBool b \<Rightarrow> Delete_filter max_str_digits E t (dict_set filter_by ''id'' (PBool b)) conn
      | IdNone \<Rightarrow> Delete_filter max_str_digits E t filter_by conn)"

section \<open>Update\<close>

text \<open>
  The \<^verbatim>\<open>data\<close> argument of Update: a dict, or an object of any other type, of which the
  code only asks \<^verbatim>\<open>isinstance(data, dict)\<close>.
\<close>

datatype update_data = DataDict qdata | DataOther

definition Update_query :: "table \<Rightarrow> string" where
  "Update_query t = ''UPDATE '' @ name t @ '' SET ''"

definition Update_call ::
    "nat \<Rightarrow> engine \<Rightarrow> table \<Rightarrow> update_data \<Rightarrow> qdata \<Rightarrow> db_call list \<Rightarrow>
      (error + unit) \<times> db_call list" where
  "Update_call max_str_digits E t data filter_by conn =
     (case data of
        DataOther \<Rightarrow>
          (Inl (TypeError (''Incorrect type for '' @ [CHR 0x27] @ ''data.'' @ [CHR 0x27])), conn)
      | DataDict d \<Rightarrow>
          if d = []
          then (Inl (ValueError (''Argument '' @ [CHR 0x27] @ ''data'' @ [CHR 0x27] @
                                 '' do not be empty.'')), conn)
          else (case TableOperation_make_operator_query max_str_digits d '','' False of
                  Inl e \<Rightarrow> (Inl e, conn)
                | Inr query_coma \<Rightarrow>
                    (case TableOperation_make_operator_query max_str_digits filter_by ''AND'' True of
                       Inl e \<Rightarrow> (Inl e, conn)
                     | Inr query_operator \<Rightarrow>
                         (let query = (if filter_by \<noteq> []
                                       then (Update_query t @ query_coma) @ '' WHERE '' @
                                            query_operator
                                       else Update_query t @ query_coma)
                          in case execute E conn query d of
                               Inl e \<Rightarrow> (Inl e, conn @ [Execute query d])
                             | Inr _ \<Rightarrow> do_commit E (conn @ [Execute query d])))))"

section \<open>Properties of the clause builder\<close>

lemma lower_char_letter:
  assumes "97 \<le> (of_char d :: nat)" "(of_char d :: nat) \<le> 122"
  shows "lower_char c = d \<longleftrightarrow> c = d \<or> c = char_of ((of_char d :: nat) - 32)"
proof -
  have d32: "(of_char (char_of ((of_char d :: nat) - 32) :: char) :: nat) = of_char d - 32"
    using assms by simp
  show ?thesis
  proof (cases "65 \<le> (of_char c :: nat) \<and> (of_char c :: nat) \<le> 90")
    case True
    then have lc: "lower_char c = char_of ((of_char c :: nat) + 32)"
      by (simp add: lower_char_def)
    have "lower_char c = d \<longleftrightarrow> (of_char c :: nat) + 32 = of_char d"
    proof
      assume "lower_char c = d"
      then have "(of_char (char_of ((of_char c :: nat) + 32) :: char) :: nat) = of_char d"
        using lc by simp
      then show "(of_char c :: nat) + 32 = of_char d"
        using True by simp
    next
      assume "(of_char c :: nat) + 32 = of_char d"
      then show "lower_char c = d"
        using lc by simp
    qed
    also have "\<dots> \<longleftrightarrow> c = char_of ((of_char d :: nat) - 32)"
    proof
      assume h: "(of_char c :: nat) + 32 = of_char d"
      then have "(of_char d :: nat) - 32 = of_char c" by simp
      then show "c = char_of ((of_char d :: nat) - 32)" by simp
    next
      assume "c = char_of ((of_char d :: nat) - 32)"
      then show "(of_char c :: nat) + 32 = of_char d"
        using d32 assms by simp
    qed
    finally have main: "lower_char c = d \<longleftrightarrow> c = char_of ((of_char d :: nat) - 32)" .
    have "c \<noteq> d" using True assms by auto
    with main show ?thesis by simp
  next
    case False
    then have lc: "lower_char c = c"
      by (auto simp add: lower_char_def Let_def)
    have "c \<noteq> char_of ((of_char d :: nat) - 32)"
    proof
      assume "c = char_of ((of_char d :: nat) - 32)"
      then have "(of_char c :: nat) = of_char d - 32" using d32 by simp
      then show False using False assms by auto
    qed
    with lc show ?thesis by auto
  qed
qed

lemma upper_codes:
  "char_of (65::nat) = CHR ''A''" "char_of (78::nat) = CHR ''N''" "char_of (68::nat) = CHR ''D''"
  "char_of (79::nat) = CHR ''O''" "char_of (82::nat) = CHR ''R''"
  by code_simp+

lemma lower_char_a: "lower_char c = CHR ''a'' \<longleftrightarrow> c = CHR ''a'' \<or> c = CHR ''A''"
  using lower_char_letter [of "CHR ''a''" c] by (simp add: upper_codes)
lemma lower_char_n: "lower_char c = CHR ''n'' \<longleftrightarrow> c = CHR ''n'' \<or> c = CHR ''N''"
  using lower_char_letter [of "CHR ''n''" c] by (simp add: upper_codes)
lemma lower_char_d: "lower_char c = CHR ''d'' \<longleftrightarrow> c = CHR ''d'' \<or> c = CHR ''D''"
  using lower_char_letter [of "CHR ''d''" c] by (simp add: upper_codes)
lemma lower_char_o: "lower_char c = CHR ''o'' \<longleftrightarrow> c = CHR ''o'' \<or> c = CHR ''O''"
  using lower_char_letter [of "CHR ''o''" c] by (simp add: upper_codes)
lemma lower_char_r: "lower_char c = CHR ''r'' \<longleftrightarrow> c = CHR ''r'' \<or> c = CHR ''R''"
  using lower_char_letter [of "CHR ''r''" c] by (simp add: upper_codes)
lemma lower_char_comma: "lower_char c = CHR '','' \<longleftrightarrow> c = CHR '',''"
proof (cases "65 \<le> (of_char c :: nat) \<and> (of_char c :: nat) \<le> 90")
  case True
  then have "lower_char c = char_of ((of_char c :: nat) + 32)"
    by (simp add: lower_char_def)
  then have "(of_char (lower_char c) :: nat) = of_char c + 32"
    using True by simp
  then have "lower_char c \<noteq> CHR '',''" using True by auto
  moreover have "c \<noteq> CHR '',''" using True by auto
  ultimately show ?thesis by simp
next
  case False
  then show ?thesis by (auto simp add: lower_char_def Let_def)
qed

lemma map3: "map f s = [x, y, z] \<longleftrightarrow> (\<exists>a b c. s = [a, b, c] \<and> f a = x \<and> f b = y \<and> f c = z)"
  by (simp add: map_eq_Cons_conv) blast
lemma map2: "map f s = [x, y] \<longleftrightarrow> (\<exists>a b. s = [a, b] \<and> f a = x \<and> f b = y)"
  by (simp add: map_eq_Cons_conv) blast
lemma map1: "map f s = [x] \<longleftrightarrow> (\<exists>a. s = [a] \<and> f a = x)"
  by (simp add: map_eq_Cons_conv)

lemma lower_and: "lower s = ''and'' \<longleftrightarrow>
   s \<in> {''and'', ''anD'', ''aNd'', ''aND'', ''And'', ''AnD'', ''ANd'', ''AND''}"
proof
  assume "lower s = ''and''"
  then have "\<exists>a b c. s = [a, b, c] \<and> lower_char a = CHR ''a'' \<and> lower_char b = CHR ''n'' \<and>
      lower_char c = CHR ''d''"
    unfolding lower_def map3 .
  then obtain a b c where s: "s = [a, b, c]"
    and a: "a = CHR ''a'' \<or> a = CHR ''A''"
    and b: "b = CHR ''n'' \<or> b = CHR ''N''"
    and c: "c = CHR ''d'' \<or> c = CHR ''D''"
    unfolding lower_char_a lower_char_n lower_char_d by iprover
  from a b c show "s \<in> {''and'', ''anD'', ''aNd'', ''aND'', ''And'', ''AnD'', ''ANd'', ''AND''}"
    unfolding s by (elim disjE) simp_all
next
  assume "s \<in> {''and'', ''anD'', ''aNd'', ''aND'', ''And'', ''AnD'', ''ANd'', ''AND''}"
  then show "lower s = ''and''"
    by (elim insertE emptyE) (simp_all add: lower_def lower_char_a lower_char_n lower_char_d)
qed

lemma lower_or: "lower s = ''or'' \<longleftrightarrow> s \<in> {''or'', ''oR'', ''Or'', ''OR''}"
proof
  assume "lower s = ''or''"
  then have "\<exists>a b. s = [a, b] \<and> lower_char a = CHR ''o'' \<and> lower_char b = CHR ''r''"
    unfolding lower_def map2 .
  then obtain a b where s: "s = [a, b]"
    and a: "a = CHR ''o'' \<or> a = CHR ''O''"
    and b: "b = CHR ''r'' \<or> b = CHR ''R''"
    unfolding lower_char_o lower_char_r by iprover
  from a b show "s \<in> {''or'', ''oR'', ''Or'', ''OR''}"
    unfolding s by (elim disjE) simp_all
next
  assume "s \<in> {''or'', ''oR'', ''Or'', ''OR''}"
  then show "lower s = ''or''"
    by (elim insertE emptyE) (simp_all add: lower_def lower_char_o lower_char_r)
qed

lemma lower_comma: "lower s = '','' \<longleftrightarrow> s = '',''"
  unfolding lower_def map1 lower_char_comma by simp

lemma supported_iff:
  "lower operator \<in> {''and'', ''or'', '',''} \<longleftrightarrow>
   operator \<in> {''and'', ''anD'', ''aNd'', ''aND'', ''And'', ''AnD'', ''ANd'', ''AND'',
                ''or'', ''oR'', ''Or'', ''OR'', '',''}"
proof -
  have "lower operator \<in> {''and'', ''or'', '',''} \<longleftrightarrow>
        (lower operator = ''and'' \<or> lower operator = ''or'' \<or> lower operator = '','')"
    by (simp only: insert_iff empty_iff simp_thms)
  also have "\<dots> \<longleftrightarrow>
     (operator \<in> {''and'', ''anD'', ''aNd'', ''aND'', ''And'', ''AnD'', ''ANd'', ''AND''} \<or>
      operator \<in> {''or'', ''oR'', ''Or'', ''OR''} \<or> operator = '','')"
    by (simp only: lower_and lower_or lower_comma)
  also have "\<dots> \<longleftrightarrow>
     operator \<in> {''and'', ''anD'', ''aNd'', ''aND'', ''And'', ''AnD'', ''ANd'', ''AND'',
                ''or'', ''oR'', ''Or'', ''OR'', '',''}"
    by (simp only: insert_iff empty_iff simp_thms disj_assoc)
  finally show ?thesis .
qed


section \<open>Expressions that may raise\<close>

lemma collect_isl_iff: "isl (collect f xs) \<longleftrightarrow> (\<exists>x\<in>set xs. isl (f x))"
  by (induction xs) (auto split: sum.splits)

lemma collect_Inl: "collect f xs = Inl e \<Longrightarrow> \<exists>x\<in>set xs. f x = Inl e"
  by (induction xs arbitrary: e) (auto split: sum.splits)


lemma collect_Inr_iff:
  "collect f xs = Inr ys \<longleftrightarrow>
     length ys = length xs \<and> (\<forall>i<length xs. f (xs ! i) = Inr (ys ! i))"
proof (induction xs arbitrary: ys)
  case Nil
  show ?case by auto
next
  case (Cons x xs)
  show ?case
  proof (cases ys)
    case Nil
    then show ?thesis by (auto split: sum.splits)
  next
    case (Cons y ys')
    then show ?thesis using Cons.IH [of ys']
      by (auto split: sum.splits simp: nth_Cons less_Suc_eq_0_disj split: nat.splits)
  qed
qed

lemma literal_clause_isl:
  "isl (literal_clause L (key, v)) \<longleftrightarrow> (\<exists>i. v = PInt i \<and> exceeds_max_str_digits L i)"
  by (cases v) auto

lemma literal_clause_Inl:
  "literal_clause L kv = Inl e \<Longrightarrow> e = max_str_digits_error L"
  by (cases kv; cases "snd kv") (auto split: if_splits)

lemma max_str_digits_error_neq: "max_str_digits_error L \<noteq> ValueError ''Incorrect operator.''"
  by (simp add: max_str_digits_error_def)

lemma exceeds_power: "0 < L \<Longrightarrow> exceeds_max_str_digits L (10 ^ L)"
  by (simp add: exceeds_max_str_digits_def)

lemma literal_mode_isl:
  "isl (collect (literal_clause L) data) \<longleftrightarrow>
     (\<exists>key i. (key, PInt i) \<in> set data \<and> exceeds_max_str_digits L i)"
  unfolding collect_isl_iff
proof
  assume "\<exists>x\<in>set data. isl (literal_clause L x)"
  then obtain key v where m: "(key, v) \<in> set data" and i: "isl (literal_clause L (key, v))"
    by auto
  from i obtain i where "v = PInt i" "exceeds_max_str_digits L i"
    unfolding literal_clause_isl by auto
  with m show "\<exists>key i. (key, PInt i) \<in> set data \<and> exceeds_max_str_digits L i" by auto
next
  assume "\<exists>key i. (key, PInt i) \<in> set data \<and> exceeds_max_str_digits L i"
  then obtain key i where m: "(key, PInt i) \<in> set data" and e: "exceeds_max_str_digits L i"
    by auto
  from e have "isl (literal_clause L (key, PInt i))" unfolding literal_clause_isl by simp
  with m show "\<exists>x\<in>set data. isl (literal_clause L x)" by blast
qed

lemma literal_mode_Inl:
  "collect (literal_clause L) data = Inl e \<Longrightarrow> e = max_str_digits_error L"
  using collect_Inl literal_clause_Inl by fastforce

lemma digit_chars:
  "digit 0 = CHR ''0''" "digit 1 = CHR ''1''" "digit 2 = CHR ''2''" "digit 3 = CHR ''3''"
  "digit 4 = CHR ''4''" "digit 5 = CHR ''5''" "digit 6 = CHR ''6''" "digit 7 = CHR ''7''"
  "digit 8 = CHR ''8''" "digit 9 = CHR ''9''"
  by code_simp+

lemma str_nat_4300: "str_nat 4300 = ''4300''"
  by (simp add: str_nat.simps [of 4300] str_nat.simps [of 430] str_nat.simps [of 43]
      str_nat.simps [of 4] digit_chars)

lemma max_str_digits_error_4300:
  "max_str_digits_error 4300 = ValueError (''Exceeds the limit (4300 digits) for integer string conversion; use sys.set_int_max_str_digits() to increase the limit'')"
  by (simp add: max_str_digits_error_def str_nat_4300)

lemma small_int_fits: "\<bar>i\<bar> < 10 \<Longrightarrow> \<not> exceeds_max_str_digits L i"
proof
  assume s: "\<bar>i\<bar> < 10" and e: "exceeds_max_str_digits L i"
  from e have p: "0 < L" and l: "(10::int) ^ L \<le> \<bar>i\<bar>"
    unfolding exceeds_max_str_digits_def by simp_all
  from p have "(10::int) ^ 1 \<le> 10 ^ L" by (intro power_increasing) simp_all
  with l s show False by simp
qed

lemma digit_limit_raises:
  assumes "0 < L" "lower operator \<in> {''and'', ''or'', '',''}"
  shows "Operation_make_operator_query L [(key, PInt (10 ^ L))] operator True =
           Inl (max_str_digits_error L)"
    and "TableOperation_make_operator_query L [(key, PInt (10 ^ L))] operator True =
           Inl (max_str_digits_error L)"
  using assms exceeds_power [of L]
  by (simp_all add: Operation_make_operator_query_def TableOperation_make_operator_query_def)

lemma lower_AND: "lower ''AND'' \<in> {''and'', ''or'', '',''}"
  unfolding supported_iff by simp


lemma str_int_1: "str_int 1 = ''1''"
  by code_simp

lemma lower_OR: "lower ''OR'' \<in> {''and'', ''or'', '',''}"
  unfolding supported_iff by simp

lemma parameterized_supported:
  "lower operator \<in> {''and'', ''or'', '',''} \<Longrightarrow>
   TableOperation_make_operator_query L data operator False =
     Inr (join ('' '' @ operator @ '' '') (map parameter_clause data))"
  by (simp add: TableOperation_make_operator_query_def)


lemma str_int_2: "str_int 2 = ''2''"
  by code_simp


section \<open>Claim C2: when the clause builder raises\<close>

lemma literal_mode_not_incorrect:
  "(case collect (literal_clause L) data of Inl e \<Rightarrow> Inl e | Inr clauses \<Rightarrow> Inr (f clauses))
     \<noteq> Inl (ValueError ''Incorrect operator.'')"
  using literal_mode_Inl [of L data] max_str_digits_error_neq [of L]
  by (auto split: sum.splits)

lemma literal_mode_case_isl:
  "isl (case collect (literal_clause L) data of Inl e \<Rightarrow> Inl e | Inr clauses \<Rightarrow> Inr (f clauses))
     \<longleftrightarrow> (\<exists>key i. (key, PInt i) \<in> set data \<and> exceeds_max_str_digits L i)"
  unfolding literal_mode_isl [symmetric] by (simp split: sum.splits)

text \<open>
  Claim C2, as stated, says that the clause builder raises a ValueError if and only if the
  operator is unsupported, and never raises for a supported operator. It is refuted in
  literal mode: with the supported operator \<^verbatim>\<open>AND\<close>, the default digit limit 4300 and
  the mapping \<^verbatim>\<open>{"x": 10 ** 4300}\<close> (a number of 4301 digits), both copies of the
  builder raise the ValueError of the integer to string conversion. \<^verbatim>\<open>Update\<close> calls the
  builder in this mode on its keyword filters.
\<close>

theorem make_operator_query_digit_limit:
  "lower ''AND'' \<in> {''and'', ''or'', '',''} \<and>
   Operation_make_operator_query 4300 [(''x'', PInt (10 ^ 4300))] ''AND'' True =
     Inl (ValueError (''Exceeds the limit (4300 digits) for integer string conversion; use sys.set_int_max_str_digits() to increase the limit'')) \<and>
   TableOperation_make_operator_query 4300 [(''x'', PInt (10 ^ 4300))] ''AND'' True =
     Inl (ValueError (''Exceeds the limit (4300 digits) for integer string conversion; use sys.set_int_max_str_digits() to increase the limit''))"
proof -
  have p: "(0::nat) < 4300" by simp
  show ?thesis
    unfolding max_str_digits_error_4300 [symmetric]
    by (intro conjI lower_AND digit_limit_raises [OF p lower_AND])
qed

text \<open>
  Claim C2, amended. For every data mapping, operator, mode and digit limit, both copies of
  the clause builder raise the ValueError \<^verbatim>\<open>Incorrect operator.\<close> if and only if the
  operator, compared case-insensitively, is none of \<^verbatim>\<open>and\<close>, \<^verbatim>\<open>or\<close> and the comma,
  that is, none of the thirteen spellings listed. In parameterized mode they raise nothing
  else: they raise if and only if the operator is unsupported. In literal mode they raise
  if and only if the operator is unsupported or some value of the mapping is an integer
  with more digits than the interpreter's limit.
\<close>

theorem make_operator_query_incorrect_operator_iff:
  "(Operation_make_operator_query L data operator without_parameters =
      Inl (ValueError ''Incorrect operator.'') \<longleftrightarrow>
    operator \<notin> {''and'', ''anD'', ''aNd'', ''aND'', ''And'', ''AnD'', ''ANd'', ''AND'',
                  ''or'', ''oR'', ''Or'', ''OR'', '',''}) \<and>
   (TableOperation_make_operator_query L data operator without_parameters =
      Inl (ValueError ''Incorrect operator.'') \<longleftrightarrow>
    operator \<notin> {''and'', ''anD'', ''aNd'', ''aND'', ''And'', ''AnD'', ''ANd'', ''AND'',
                  ''or'', ''oR'', ''Or'', ''OR'', '',''}) \<and>
   (isl (Operation_make_operator_query L data operator False) \<longleftrightarrow>
    operator \<notin> {''and'', ''anD'', ''aNd'', ''aND'', ''And'', ''AnD'', ''ANd'', ''AND'',
                  ''or'', ''oR'', ''Or'', ''OR'', '',''}) \<and>
   (isl (TableOperation_make_operator_query L data operator False) \<longleftrightarrow>
    operator \<notin> {''and'', ''anD'', ''aNd'', ''aND'', ''And'', ''AnD'', ''ANd'', ''AND'',
                  ''or'', ''oR'', ''Or'', ''OR'', '',''}) \<and>
   (isl (Operation_make_operator_query L data operator True) \<longleftrightarrow>
    operator \<notin> {''and'', ''anD'', ''aNd'', ''aND'', ''And'', ''AnD'', ''ANd'', ''AND'',
                  ''or'', ''oR'', ''Or'', ''OR'', '',''} \<or>
    (\<exists>key i. (key, PInt i) \<in> set data \<and> exceeds_max_str_digits L i)) \<and>
   (isl (TableOperation_make_operator_query L data operator True) \<longleftrightarrow>
    operator \<notin> {''and'', ''anD'', ''aNd'', ''aND'', ''And'', ''AnD'', ''ANd'', ''AND'',
                  ''or'', ''oR'', ''Or'', ''OR'', '',''} \<or>
    (\<exists>key i. (key, PInt i) \<in> set data \<and> exceeds_max_str_digits L i))"
  unfolding Operation_make_operator_query_def TableOperation_make_operator_query_def
    supported_iff [symmetric]
  by (simp add: literal_mode_not_incorrect literal_mode_case_isl)

theorem make_operator_query_incorrect_operator_witness:
  "Operation_make_operator_query 4300 [(''a'', PInt 1), (''b'', PNone)] ''xor'' True =
     Inl (ValueError ''Incorrect operator.'') \<and>
   \<not> isl (TableOperation_make_operator_query 4300 [(''a'', PInt 1), (''b'', PNone)] ''Or'' False) \<and>
   \<not> isl (Operation_make_operator_query 4300 [(''a'', PInt 1), (''b'', PNone)] ''Or'' True) \<and>
   isl (TableOperation_make_operator_query 4300 [(''a'', PInt 1), (''b'', PNone)] ''not'' False)"
  using make_operator_query_incorrect_operator_iff [of 4300 "[(''a'', PInt 1), (''b'', PNone)]" "''xor''" True]
    make_operator_query_incorrect_operator_iff [of 4300 "[(''a'', PInt 1), (''b'', PNone)]" "''Or''" True]
    make_operator_query_incorrect_operator_iff [of 4300 "[(''a'', PInt 1), (''b'', PNone)]" "''not''" True]
    small_int_fits [of 1 4300]
  by simp

section \<open>Claim C3: how a null value is rendered\<close>

lemma make_operator_query_Inr:
  assumes "Operation_make_operator_query L data operator without_parameters = Inr s \<or>
           TableOperation_make_operator_query L data operator without_parameters = Inr s"
  shows "\<exists>clauses.
           (if without_parameters then collect (literal_clause L) data = Inr clauses
            else clauses = map parameter_clause data) \<and>
           s = join ('' '' @ operator @ '' '') clauses \<and>
           Operation_make_operator_query L data operator without_parameters = Inr s \<and>
           TableOperation_make_operator_query L data operator without_parameters = Inr s"
  using assms
  unfolding Operation_make_operator_query_def TableOperation_make_operator_query_def
  by (auto split: if_splits sum.splits)

text \<open>
  Claim C3. Whenever the clause builder (either copy, in either mode) returns a text for a
  data mapping, the text is the join of one clause per entry of the mapping, in the order
  of the mapping. The clause of every entry whose value is \<^verbatim>\<open>None\<close> is
  \<^verbatim>\<open>col is NULL\<close>, in parameterized mode and in literal mode, and it is no equality
  \<^verbatim>\<open>col = ...\<close> whatever stands on the right (so neither the placeholder \<^verbatim>\<open>col = :col\<close>
  nor an embedded value). In parameterized mode the clause of every entry whose value is
  not \<^verbatim>\<open>None\<close> is \<^verbatim>\<open>col = :col\<close>.
\<close>

theorem null_value_renders_is_null:
  assumes "Operation_make_operator_query L data operator without_parameters = Inr s \<or>
           TableOperation_make_operator_query L data operator without_parameters = Inr s"
  shows "\<exists>clauses.
           length clauses = length data \<and>
           s = join ('' '' @ operator @ '' '') clauses \<and>
           Operation_make_operator_query L data operator without_parameters = Inr s \<and>
           TableOperation_make_operator_query L data operator without_parameters = Inr s \<and>
           (\<forall>n<length data.
              (snd (data ! n) = PNone \<longrightarrow>
                 clauses ! n = fst (data ! n) @ '' is NULL'' \<and>
                 (\<forall>x. clauses ! n \<noteq> fst (data ! n) @ '' = '' @ x)) \<and>
              (snd (data ! n) \<noteq> PNone \<and> \<not> without_parameters \<longrightarrow>
                 clauses ! n = fst (data ! n) @ '' = :'' @ fst (data ! n)))"
proof -
  from make_operator_query_Inr [OF assms] obtain clauses where
    c: "if without_parameters then collect (literal_clause L) data = Inr clauses
        else clauses = map parameter_clause data"
    and s: "s = join ('' '' @ operator @ '' '') clauses"
    and o: "Operation_make_operator_query L data operator without_parameters = Inr s"
    and t: "TableOperation_make_operator_query L data operator without_parameters = Inr s"
    by blast
  have len: "length clauses = length data"
    using c by (auto simp: collect_Inr_iff split: if_splits)
  have each: "(snd (data ! n) = PNone \<longrightarrow>
                 clauses ! n = fst (data ! n) @ '' is NULL'' \<and>
                 (\<forall>x. clauses ! n \<noteq> fst (data ! n) @ '' = '' @ x)) \<and>
              (snd (data ! n) \<noteq> PNone \<and> \<not> without_parameters \<longrightarrow>
                 clauses ! n = fst (data ! n) @ '' = :'' @ fst (data ! n))"
    if n: "n < length data" for n
  proof (cases without_parameters)
    case True
    with c have "literal_clause L (data ! n) = Inr (clauses ! n)"
      using n by (simp add: collect_Inr_iff)
    then show ?thesis using True by (cases "data ! n") (auto split: if_splits)
  next
    case False
    with c have "clauses ! n = parameter_clause (data ! n)" using n by simp
    then show ?thesis using False by (cases "data ! n") auto
  qed
  show ?thesis
    using len s o t each by blast
qed

theorem null_value_renders_is_null_witness:
  "Operation_make_operator_query 4300 [(''a'', PNone), (''b'', PInt 1)] ''OR'' True =
     Inr ''a is NULL OR b = 1'' \<and>
   TableOperation_make_operator_query 4300 [(''a'', PNone), (''b'', PInt 1)] ''OR'' True =
     Inr ''a is NULL OR b = 1'' \<and>
   (\<exists>clauses. length clauses = 2 \<and> ''a is NULL OR b = 1'' = join '' OR '' clauses \<and>
      clauses ! 0 = ''a is NULL'')"
proof -
  have f: "\<not> exceeds_max_str_digits 4300 1" by (rule small_int_fits) simp
  have h: "Operation_make_operator_query 4300 [(''a'', PNone), (''b'', PInt 1)] ''OR'' True =
             Inr ''a is NULL OR b = 1''"
    using lower_OR f by (simp add: Operation_make_operator_query_def str_int_1)
  have h': "TableOperation_make_operator_query 4300 [(''a'', PNone), (''b'', PInt 1)] ''OR'' True =
             Inr ''a is NULL OR b = 1''"
    using lower_OR f by (simp add: TableOperation_make_operator_query_def str_int_1)
  have "\<exists>clauses.
           length clauses = length [(''a'', PNone), (''b'', PInt 1)] \<and>
           ''a is NULL OR b = 1'' = join ('' '' @ ''OR'' @ '' '') clauses \<and>
           Operation_make_operator_query 4300 [(''a'', PNone), (''b'', PInt 1)] ''OR'' True =
             Inr ''a is NULL OR b = 1'' \<and>
           TableOperation_make_operator_query 4300 [(''a'', PNone), (''b'', PInt 1)] ''OR'' True =
             Inr ''a is NULL OR b = 1'' \<and>
           (\<forall>n<length [(''a'', PNone), (''b'', PInt 1)].
              (snd ([(''a'', PNone), (''b'', PInt 1)] ! n) = PNone \<longrightarrow>
                 clauses ! n = fst ([(''a'', PNone), (''b'', PInt 1)] ! n) @ '' is NULL'' \<and>
                 (\<forall>x. clauses ! n \<noteq> fst ([(''a'', PNone), (''b'', PInt 1)] ! n) @ '' = '' @ x)) \<and>
              (snd ([(''a'', PNone), (''b'', PInt 1)] ! n) \<noteq> PNone \<and> \<not> True \<longrightarrow>
                 clauses ! n = fst ([(''a'', PNone), (''b'', PInt 1)] ! n) @ '' = :'' @
                   fst ([(''a'', PNone), (''b'', PInt 1)] ! n)))"
    by (rule null_value_renders_is_null [OF disjI1 [OF h]])
  then obtain clauses where l: "length clauses = length [(''a'', PNone), (''b'', PInt (1::int))]"
    and j: "''a is NULL OR b = 1'' = join ('' '' @ ''OR'' @ '' '') clauses"
    and a: "\<forall>n<length [(''a'', PNone), (''b'', PInt 1)].
              (snd ([(''a'', PNone), (''b'', PInt 1)] ! n) = PNone \<longrightarrow>
                 clauses ! n = fst ([(''a'', PNone), (''b'', PInt 1)] ! n) @ '' is NULL'' \<and>
                 (\<forall>x. clauses ! n \<noteq> fst ([(''a'', PNone), (''b'', PInt 1)] ! n) @ '' = '' @ x)) \<and>
              (snd ([(''a'', PNone), (''b'', PInt 1)] ! n) \<noteq> PNone \<and> \<not> True \<longrightarrow>
                 clauses ! n = fst ([(''a'', PNone), (''b'', PInt 1)] ! n) @ '' = :'' @
                   fst ([(''a'', PNone), (''b'', PInt 1)] ! n))"
    by iprover
  from l have l2: "length clauses = 2" by simp
  from j have j2: "''a is NULL OR b = 1'' = join '' OR '' clauses" by simp
  from a have "(0::nat) < length [(''a'', PNone), (''b'', PInt (1::int))] \<longrightarrow>
              (snd ([(''a'', PNone), (''b'', PInt 1)] ! 0) = PNone \<longrightarrow>
                 clauses ! 0 = fst ([(''a'', PNone), (''b'', PInt 1)] ! 0) @ '' is NULL'' \<and>
                 (\<forall>x. clauses ! 0 \<noteq> fst ([(''a'', PNone), (''b'', PInt 1)] ! 0) @ '' = '' @ x)) \<and>
              (snd ([(''a'', PNone), (''b'', PInt 1)] ! 0) \<noteq> PNone \<and> \<not> True \<longrightarrow>
                 clauses ! 0 = fst ([(''a'', PNone), (''b'', PInt 1)] ! 0) @ '' = :'' @
                   fst ([(''a'', PNone), (''b'', PInt 1)] ! 0))"
    by (rule spec)
  then have c0: "clauses ! 0 = ''a is NULL''" by simp
  from l2 j2 c0 have "\<exists>clauses. length clauses = 2 \<and>
      ''a is NULL OR b = 1'' = join '' OR '' clauses \<and> clauses ! 0 = ''a is NULL''"
    by iprover
  with h h' show ?thesis by iprover
qed

section \<open>Claim C7: Update rejects a wrong or empty assignment argument\<close>

text \<open>
  Claim C7. Whatever the table, the keyword filters, the engine and the calls made so far:
  Update raises the TypeError \<^verbatim>\<open>Incorrect type for 'data.'\<close> when its assignment
  argument is not a dict, and the ValueError \<^verbatim>\<open>Argument 'data' do not be empty.\<close> when
  it is the empty dict. In both cases the log of the calls made on the engine is returned
  as it was: no statement was executed and nothing was committed.
\<close>

theorem Update_rejects_bad_data:
  "Update_call L E t DataOther filter_by conn =
     (Inl (TypeError (''Incorrect type for '' @ [CHR 0x27] @ ''data.'' @ [CHR 0x27])), conn) \<and>
   Update_call L E t (DataDict []) filter_by conn =
     (Inl (ValueError (''Argument '' @ [CHR 0x27] @ ''data'' @ [CHR 0x27] @ '' do not be empty.'')),
      conn)"
  by (simp add: Update_call_def)

section \<open>Claim C4: the statement Update builds\<close>




section \<open>Claim C8: Delete by one id or by keyword filters\<close>

text \<open>
  Claim C8, as stated, says that whenever an id or keyword filters are supplied, Delete
  builds the WHERE clause with the parameterized builder joined by \<^verbatim>\<open>AND\<close>. It is
  refuted by a call that supplies keyword filters together with an iterable of ids,
  \<^verbatim>\<open>delete([1, 2], name="x")\<close> on the table \<^verbatim>\<open>t\<close>: the branch for an iterable runs
  the batched statement \<^verbatim>\<open>DELETE FROM t WHERE id=?\<close> and returns; the builder is not
  called and the filter is in neither the text nor the bindings.
\<close>

theorem Delete_iterable_ignores_filters:
  "Delete_call 4300 (steady_engine [])
     \<lparr>name = ''t'', column_names = [''id'', ''name''], use_datacls = False\<rparr>
     (IdIterable [PInt 1, PInt 2]) [(''name'', PStr ''x'')] [] =
   (Inr (), [ExecuteMany ''DELETE FROM t WHERE id=?'' [[PStr ''1''], [PStr ''2'']], Commit])"
proof -
  have f: "\<not> exceeds_max_str_digits 4300 1" "\<not> exceeds_max_str_digits 4300 2"
    by (rule small_int_fits, simp)+
  show ?thesis
    using f
    by (simp add: Delete_call_def Delete_query_def steady_engine_def do_commit_def
        str_int_1 str_int_2)
qed

text \<open>
  Claim C8, amended. Delete raises the ValueError \<^verbatim>\<open>Value do not be empty.\<close> when it is
  called with no id and no keyword filter, and then makes no call on the engine. When the
  id argument is not an iterable, and one id or at least one keyword filter is supplied, the
  filters of the statement are the keyword filters with the id, if one is given, stored
  under the key \<^verbatim>\<open>id\<close>; the WHERE clause is what the parameterized builder returns for
  them with the operator \<^verbatim>\<open>AND\<close>, that is their parameterized clauses joined by
  \<^verbatim>\<open>" AND "\<close>; Delete executes \<^verbatim>\<open>DELETE FROM <table> WHERE <clause>\<close> with the filters
  as bindings and, when the engine has accepted the statement, commits.
\<close>

theorem Delete_filter_path:
  "Delete_call L E t IdNone [] conn = (Inl (ValueError ''Value do not be empty.''), conn) \<and>
   ((\<forall>id_list. ident \<noteq> IdIterable id_list) \<and> (ident \<noteq> IdNone \<or> filter_by \<noteq> []) \<longrightarrow>
    (let filters = (case ident of
                      IdInt i \<Rightarrow> dict_set filter_by ''id'' (PInt i)
                    | IdBool b \<Rightarrow> dict_set filter_by ''id'' (PBool b)
                    | _ \<Rightarrow> filter_by);
         query_and = join '' AND '' (map parameter_clause filters);
         query = ''DELETE FROM '' @ name t @ '' WHERE '' @ query_and
     in TableOperation_make_operator_query L filters ''AND'' False = Inr query_and \<and>
        Delete_call L E t ident filter_by conn =
          (case execute E conn query filters of
             Inl e \<Rightarrow> (Inl e, conn @ [Execute query filters])
           | Inr _ \<Rightarrow> do_commit E (conn @ [Execute query filters]))))"
proof -
  have ne: "dict_set d k v \<noteq> []" for d :: qdata and k v
    by (cases d) (auto split: if_splits)
  note a = parameterized_supported [OF lower_AND]
  show ?thesis
    by (cases ident)
      (simp_all add: Delete_call_def Delete_filter_def Let_def a ne split: sum.splits)
qed

theorem Delete_filter_path_witness:
  "Delete_call 4300 (steady_engine [])
     \<lparr>name = ''t'', column_names = [''id'', ''name''], use_datacls = False\<rparr>
     (IdInt 5) [(''name'', PStr ''x''), (''age'', PNone)] [] =
   (Inr (), [Execute ''DELETE FROM t WHERE name = :name AND age is NULL AND id = :id''
               [(''name'', PStr ''x''), (''age'', PNone), (''id'', PInt 5)], Commit]) \<and>
   Delete_call 4300 (steady_engine [])
     \<lparr>name = ''t'', column_names = [''id'', ''name''], use_datacls = False\<rparr>
     IdNone [] [] = (Inl (ValueError ''Value do not be empty.''), [])"
  using Delete_filter_path [of 4300 "steady_engine []"
      "\<lparr>name = ''t'', column_names = [''id'', ''name''], use_datacls = False\<rparr>" "[]"
      "IdInt 5" "[(''name'', PStr ''x''), (''age'', PNone)]"]
  by (simp add: steady_engine_def do_commit_def Let_def)

section \<open>Claim C10: Delete by an iterable of ids\<close>




section \<open>Claim C1: when Insert is skipped\<close>







section \<open>Claim C6: what Select executes and returns\<close>

















end
